theory Spec2Isabelle
  imports Main
begin

section \<open>Data model (fsm.go)\<close>

text \<open>
  The structs of \<^verbatim>\<open>fsm.go\<close> are records with the fields of the source. A
  \<^verbatim>\<open>time.Time\<close> is the wall-clock instant as an integer (the reading of
  \<^verbatim>\<open>time.Now().UTC()\<close>, which carries no monotonic part); the engine takes
  the reading as an argument.
\<close>

type_synonym Time = int

record State =
  Name :: string

record Event =
  Name :: string

record Transition =
  From :: State
  To :: State
  Event :: Event
  CreatedAt :: Time
  CreatedBy :: string

record Entity =
  Type :: string
  ID :: string

record EntityTransition =
  Entity :: Entity
  Transition :: Transition

text \<open>
  Errors are values. The four sentinels of the package are constructors of their own
  (Go compares them by identity); \<^verbatim>\<open>errors.New(msg)\<close> at the other places is
  \<open>errors_New msg\<close>, and \<^verbatim>\<open>fmt.Errorf(format, ...)\<close> with one \<^verbatim>\<open>%w\<close>
  verb is \<open>fmt_Errorf format wrapped args\<close>, keeping the format, the wrapped error
  and the remaining arguments. \<open>errors_Is\<close> follows the chain of wrapped errors as
  \<^verbatim>\<open>errors.Is\<close> does.
\<close>

datatype error =
    ErrInvalidState
  | ErrInvalidEvent
  | ErrInvalidTransition
  | ErrEntityNotFound
  | errors_New string
  | fmt_Errorf string error "string list"

fun errors_Is :: "error \<Rightarrow> error \<Rightarrow> bool" where
  "errors_Is (fmt_Errorf fmt w args) target =
     (fmt_Errorf fmt w args = target \<or> errors_Is w target)"
| "errors_Is e target = (e = target)"

text \<open>
  The \<^verbatim>\<open>Storage\<close> interface: a record of its three methods over the state
  \<open>'s\<close> of the backend. \<^verbatim>\<open>SaveTransition\<close> returns the error (\<open>None\<close> is
  \<^verbatim>\<open>nil\<close>) and the new state of the backend; the two readers leave the backend
  as it is. Go's \<^verbatim>\<open>(value, error)\<close> results are sums: \<open>Inl\<close> the error (the
  zero \<^verbatim>\<open>State{}\<close> that comes with a non-nil error is never read by the engine).
  The \<^verbatim>\<open>context.Context\<close> argument is left out: the engine only passes it on and
  the reference storage does not read it.
\<close>

record 's Storage =
  SaveTransition :: "EntityTransition \<Rightarrow> 's \<Rightarrow> error option \<times> 's"
  GetCurrentState :: "Entity \<Rightarrow> 's \<Rightarrow> error + State"
  GetTransitions :: "Entity \<Rightarrow> 's \<Rightarrow> error + EntityTransition list"

record 's FSM =
  states :: "State list"
  events :: "Event list"
  transitions :: "Transition list"
  storage :: "'s Storage"

section \<open>Reference storage (MemoryStorage)\<close>

text \<open>
  The slice of records, in append order. Every method holds the lock of the storage
  for its whole body, so the methods run one at a time; the model is the sequence of
  their runs and the lock itself is not a field.
\<close>

record MemoryStorage =
  transitions :: "EntityTransition list"

definition NewMemoryStorage :: MemoryStorage where
  "NewMemoryStorage = \<lparr>MemoryStorage.transitions = []\<rparr>"

definition MemoryStorage_SaveTransition ::
  "EntityTransition \<Rightarrow> MemoryStorage \<Rightarrow> error option \<times> MemoryStorage" where
  "MemoryStorage_SaveTransition et m =
     (None, m\<lparr>MemoryStorage.transitions := MemoryStorage.transitions m @ [et]\<rparr>)"

text \<open>
  \<^verbatim>\<open>GetCurrentState\<close> scans the log from index \<open>len - 1\<close> down to \<open>0\<close>;
  \<open>GetCurrentState_loop ts n\<close> is the loop with \<open>n = i + 1\<close> indices left to visit.
\<close>

primrec GetCurrentState_loop :: "EntityTransition list \<Rightarrow> nat \<Rightarrow> Entity \<Rightarrow> error + State" where
  "GetCurrentState_loop ts 0 entity = Inl ErrEntityNotFound"
| "GetCurrentState_loop ts (Suc i) entity =
     (let t = ts ! i in
      if Type (Entity t) = Type entity \<and> ID (Entity t) = ID entity
      then Inr (To (Transition t))
      else GetCurrentState_loop ts i entity)"

definition MemoryStorage_GetCurrentState :: "Entity \<Rightarrow> MemoryStorage \<Rightarrow> error + State" where
  "MemoryStorage_GetCurrentState entity m =
     GetCurrentState_loop (MemoryStorage.transitions m)
       (length (MemoryStorage.transitions m)) entity"

text \<open>
  \<^verbatim>\<open>GetTransitions\<close> ranges over the log and appends every record of the entity
  to \<open>result\<close>, which starts as the nil slice.
\<close>

fun GetTransitions_loop ::
  "EntityTransition list \<Rightarrow> Entity \<Rightarrow> EntityTransition list \<Rightarrow> EntityTransition list" where
  "GetTransitions_loop [] entity result = result"
| "GetTransitions_loop (t # ts) entity result =
     (if Type (Entity t) = Type entity \<and> ID (Entity t) = ID entity
      then GetTransitions_loop ts entity (result @ [t])
      else GetTransitions_loop ts entity result)"

definition MemoryStorage_GetTransitions ::
  "Entity \<Rightarrow> MemoryStorage \<Rightarrow> error + EntityTransition list" where
  "MemoryStorage_GetTransitions entity m =
     Inr (GetTransitions_loop (MemoryStorage.transitions m) entity [])"

text \<open>\<^verbatim>\<open>*MemoryStorage\<close> as a \<^verbatim>\<open>Storage\<close>.\<close>

definition MemoryStorage_impl :: "MemoryStorage Storage" where
  "MemoryStorage_impl =
     \<lparr>SaveTransition = MemoryStorage_SaveTransition,
      GetCurrentState = MemoryStorage_GetCurrentState,
      GetTransitions = MemoryStorage_GetTransitions\<rparr>"

section \<open>Validation and construction (fsm.go)\<close>

fun validateState :: "State \<Rightarrow> State list \<Rightarrow> error option" where
  "validateState state [] =
     Some (fmt_Errorf ''%w: state %q is not valid'' ErrInvalidState [State.Name state])"
| "validateState state (s # validStates) =
     (if State.Name s = State.Name state then None else validateState state validStates)"

fun validateEvent :: "Event \<Rightarrow> Event list \<Rightarrow> error option" where
  "validateEvent event [] =
     Some (fmt_Errorf ''%w: event %q is not valid'' ErrInvalidEvent [Event.Name event])"
| "validateEvent event (e # validEvents) =
     (if Event.Name e = Event.Name event then None else validateEvent event validEvents)"

text \<open>The loop of \<^verbatim>\<open>New\<close> over the declared transitions.\<close>

fun New_loop :: "Transition list \<Rightarrow> State list \<Rightarrow> Event list \<Rightarrow> error option" where
  "New_loop [] sts evs = None"
| "New_loop (t # ts) sts evs =
     (case validateState (From t) sts of
        Some err \<Rightarrow> Some (fmt_Errorf ''invalid from state in transition: %w'' err [])
      | None \<Rightarrow>
     (case validateState (To t) sts of
        Some err \<Rightarrow> Some (fmt_Errorf ''invalid to state in transition: %w'' err [])
      | None \<Rightarrow>
     (case validateEvent (Event t) evs of
        Some err \<Rightarrow> Some (fmt_Errorf ''invalid event in transition: %w'' err [])
      | None \<Rightarrow> New_loop ts sts evs)))"

text \<open>
  \<^verbatim>\<open>New\<close>: the storage argument is an interface value, \<open>None\<close> when it is
  \<^verbatim>\<open>nil\<close>. \<open>Inl\<close> is the result \<^verbatim>\<open>(nil, err)\<close>.
\<close>

definition New ::
  "State list \<Rightarrow> Event list \<Rightarrow> Transition list \<Rightarrow> 's Storage option \<Rightarrow> error + 's FSM" where
  "New sts evs trs st =
     (if length sts = 0 then Inl (errors_New ''no states defined'')
      else if length evs = 0 then Inl (errors_New ''no events defined'')
      else if length trs = 0 then Inl (errors_New ''no transitions defined'')
      else case st of
        None \<Rightarrow> Inl (errors_New ''storage cannot be nil'')
      | Some sto \<Rightarrow>
          (case New_loop trs sts evs of
             Some err \<Rightarrow> Inl err
           | None \<Rightarrow>
               Inr \<lparr>states = sts, events = evs, FSM.transitions = trs, storage = sto\<rparr>))"

section \<open>The transition engine (fsm.go)\<close>

fun findNextState_loop :: "Transition list \<Rightarrow> State \<Rightarrow> Event \<Rightarrow> State option" where
  "findNextState_loop [] from event = None"
| "findNextState_loop (t # ts) from event =
     (if State.Name (From t) = State.Name from \<and> Event.Name (Event t) = Event.Name event
      then Some (To t)
      else findNextState_loop ts from event)"

definition FSM_findNextState :: "'s FSM \<Rightarrow> State \<Rightarrow> Event \<Rightarrow> error + State" where
  "FSM_findNextState f from event =
     (case findNextState_loop (FSM.transitions f) from event of
        Some to \<Rightarrow> Inr to
      | None \<Rightarrow>
          Inl (fmt_Errorf ''%w: no transition from %q with event %q'' ErrInvalidTransition
                 [State.Name from, Event.Name event]))"

definition FSM_GetNextState :: "'s FSM \<Rightarrow> State \<Rightarrow> Event \<Rightarrow> error + State" where
  "FSM_GetNextState f currentState event = FSM_findNextState f currentState event"

text \<open>
  The entity operations take, after the arguments of the source, the clock reading
  \<open>now\<close> (where the source reads the clock) and the state of the backend, and the
  mutating ones return the error together with the new state of the backend.
\<close>

definition FSM_Start ::
  "'s FSM \<Rightarrow> Entity \<Rightarrow> State \<Rightarrow> string \<Rightarrow> Time \<Rightarrow> 's \<Rightarrow> error option \<times> 's" where
  "FSM_Start f entity initialState createdBy now s =
     (case validateState initialState (states f) of
        Some err \<Rightarrow> (Some err, s)
      | None \<Rightarrow>
          SaveTransition (storage f)
            \<lparr>Entity = entity,
             Transition = \<lparr>From = \<lparr>State.Name = ''''\<rparr>, To = initialState,
                           Event = \<lparr>Event.Name = ''start''\<rparr>,
                           CreatedAt = now, CreatedBy = createdBy\<rparr>\<rparr> s)"

definition FSM_Trigger ::
  "'s FSM \<Rightarrow> Entity \<Rightarrow> Event \<Rightarrow> string \<Rightarrow> Time \<Rightarrow> 's \<Rightarrow> error option \<times> 's" where
  "FSM_Trigger f entity event createdBy now s =
     (case GetCurrentState (storage f) entity s of
        Inl err \<Rightarrow> (Some (fmt_Errorf ''failed to get current state: %w'' err []), s)
      | Inr currentState \<Rightarrow>
     (case validateEvent event (events f) of
        Some err \<Rightarrow> (Some err, s)
      | None \<Rightarrow>
     (case FSM_findNextState f currentState event of
        Inl err \<Rightarrow> (Some err, s)
      | Inr nextState \<Rightarrow>
          SaveTransition (storage f)
            \<lparr>Entity = entity,
             Transition = \<lparr>From = currentState, To = nextState, Event = event,
                           CreatedAt = now, CreatedBy = createdBy\<rparr>\<rparr> s)))"

definition FSM_GetState :: "'s FSM \<Rightarrow> Entity \<Rightarrow> 's \<Rightarrow> error + State" where
  "FSM_GetState f entity s = GetCurrentState (storage f) entity s"

definition FSM_GetTransitions :: "'s FSM \<Rightarrow> Entity \<Rightarrow> 's \<Rightarrow> error + EntityTransition list" where
  "FSM_GetTransitions f entity s = GetTransitions (storage f) entity s"

definition FSM_CanTrigger :: "'s FSM \<Rightarrow> Entity \<Rightarrow> Event \<Rightarrow> 's \<Rightarrow> bool" where
  "FSM_CanTrigger f entity event s =
     (case GetCurrentState (storage f) entity s of
        Inl err \<Rightarrow> False
      | Inr currentState \<Rightarrow>
          (case FSM_findNextState f currentState event of
             Inl err \<Rightarrow> False
           | Inr nextState \<Rightarrow> True))"

section \<open>Histories of calls\<close>






section \<open>Workflows used as examples\<close>

text \<open>
  The document approval workflow of \<^verbatim>\<open>fsm_test.go\<close> (the zero \<^verbatim>\<open>time.Time\<close>
  of a declared transition is \<open>0\<close>), and a second transition list that declares
  \<open>draft\<close>, \<open>submit\<close> twice with different targets.
\<close>

definition declared :: "string \<Rightarrow> string \<Rightarrow> string \<Rightarrow> Transition" where
  "declared from event to =
     \<lparr>From = \<lparr>State.Name = from\<rparr>, To = \<lparr>State.Name = to\<rparr>,
      Event = \<lparr>Event.Name = event\<rparr>, CreatedAt = 0, CreatedBy = ''''\<rparr>"

definition testStates :: "State list" where
  "testStates =
     [\<lparr>State.Name = ''draft''\<rparr>, \<lparr>State.Name = ''submitted''\<rparr>, \<lparr>State.Name = ''approved''\<rparr>,
      \<lparr>State.Name = ''rejected''\<rparr>, \<lparr>State.Name = ''published''\<rparr>]"

definition testEvents :: "Event list" where
  "testEvents =
     [\<lparr>Event.Name = ''submit''\<rparr>, \<lparr>Event.Name = ''approve''\<rparr>, \<lparr>Event.Name = ''reject''\<rparr>,
      \<lparr>Event.Name = ''publish''\<rparr>, \<lparr>Event.Name = ''revise''\<rparr>]"

definition testTransitions :: "Transition list" where
  "testTransitions =
     [declared ''draft'' ''submit'' ''submitted'',
      declared ''submitted'' ''approve'' ''approved'',
      declared ''submitted'' ''reject'' ''rejected'',
      declared ''approved'' ''publish'' ''published'',
      declared ''rejected'' ''revise'' ''draft'']"

definition testFSM :: "MemoryStorage FSM" where
  "testFSM =
     \<lparr>states = testStates, events = testEvents, FSM.transitions = testTransitions,
      storage = MemoryStorage_impl\<rparr>"

definition dupTransitions :: "Transition list" where
  "dupTransitions =
     [declared ''draft'' ''submit'' ''submitted'',
      declared ''draft'' ''submit'' ''approved'']"

definition dupFSM :: "MemoryStorage FSM" where
  "dupFSM =
     \<lparr>states = testStates, events = testEvents, FSM.transitions = dupTransitions,
      storage = MemoryStorage_impl\<rparr>"

text \<open>
  The record that \<^verbatim>\<open>Start\<close> appends, a record with any \<open>from\<close>, \<open>event\<close> and
  \<open>to\<close>, and two entities.
\<close>

definition genesis :: "Entity \<Rightarrow> string \<Rightarrow> string \<Rightarrow> Time \<Rightarrow> EntityTransition" where
  "genesis entity to createdBy now =
     \<lparr>Entity = entity,
      Transition = \<lparr>From = \<lparr>State.Name = ''''\<rparr>, To = \<lparr>State.Name = to\<rparr>,
                    Event = \<lparr>Event.Name = ''start''\<rparr>,
                    CreatedAt = now, CreatedBy = createdBy\<rparr>\<rparr>"

definition recorded ::
  "Entity \<Rightarrow> string \<Rightarrow> string \<Rightarrow> string \<Rightarrow> string \<Rightarrow> Time \<Rightarrow> EntityTransition" where
  "recorded entity from event to createdBy now =
     \<lparr>Entity = entity,
      Transition = \<lparr>From = \<lparr>State.Name = from\<rparr>, To = \<lparr>State.Name = to\<rparr>,
                    Event = \<lparr>Event.Name = event\<rparr>,
                    CreatedAt = now, CreatedBy = createdBy\<rparr>\<rparr>"

definition doc1 :: Entity where
  "doc1 = \<lparr>Type = ''document'', ID = ''doc-1''\<rparr>"

definition doc2 :: Entity where
  "doc2 = \<lparr>Type = ''document'', ID = ''doc-2''\<rparr>"

text \<open>
  A backend that cannot be reached: every method returns the error that
  \<^verbatim>\<open>PostgresStorage\<close> wraps when its pool fails, and there is no state to change.
\<close>

definition unreachableStorage :: "unit Storage" where
  "unreachableStorage =
     \<lparr>SaveTransition = (\<lambda>et s.
        (Some (fmt_Errorf ''failed to save transition: %w'' (errors_New ''connection refused'') []), s)),
      GetCurrentState = (\<lambda>entity s.
        Inl (fmt_Errorf ''failed to get current state: %w'' (errors_New ''connection refused'') [])),
      GetTransitions = (\<lambda>entity s.
        Inl (fmt_Errorf ''failed to query transitions: %w'' (errors_New ''connection refused'') []))\<rparr>"

definition unreachableFSM :: "unit FSM" where
  "unreachableFSM =
     \<lparr>states = testStates, events = testEvents, FSM.transitions = testTransitions,
      storage = unreachableStorage\<rparr>"


section \<open>Facts about the loops\<close>

lemma Entity_eq_iff: "(Type a = Type b \<and> ID a = ID b) = (a = (b::Entity))"
  by auto

lemma GetCurrentState_loop_take:
  "n \<le> length ts \<Longrightarrow>
   GetCurrentState_loop ts n e =
     (if filter (\<lambda>r. Entity r = e) (take n ts) = [] then Inl ErrEntityNotFound
      else Inr (To (Transition (last (filter (\<lambda>r. Entity r = e) (take n ts))))))"
proof (induction n)
  case 0
  then show ?case by simp
next
  case (Suc i)
  then have i: "i < length ts" by simp
  then show ?case using Suc
    by (simp add: take_Suc_conv_app_nth Entity_eq_iff)
qed

lemma GetTransitions_loop_filter:
  "GetTransitions_loop ts e acc = acc @ filter (\<lambda>r. Entity r = e) ts"
  by (induction ts arbitrary: acc) (simp_all add: Entity_eq_iff)

lemma validateState_Some: "validateState st sts = Some err \<Longrightarrow>
   err = fmt_Errorf ''%w: state %q is not valid'' ErrInvalidState [State.Name st]"
  by (induction sts) (auto split: if_splits)

lemma validateEvent_Some: "validateEvent ev evs = Some err \<Longrightarrow>
   err = fmt_Errorf ''%w: event %q is not valid'' ErrInvalidEvent [Event.Name ev]"
  by (induction evs) (auto split: if_splits)

lemma New_loop_None:
  "(New_loop trs sts evs = None) =
   (\<forall>t \<in> set trs. validateState (From t) sts = None \<and> validateState (To t) sts = None
       \<and> validateEvent (Event t) evs = None)"
  by (induction trs) (auto split: option.splits)

lemma findNextState_loop_first:
  "trs = pre @ t # post \<Longrightarrow>
   \<forall>u \<in> set pre. \<not> (State.Name (From u) = State.Name from \<and> Event.Name (Event u) = Event.Name ev) \<Longrightarrow>
   State.Name (From t) = State.Name from \<and> Event.Name (Event t) = Event.Name ev \<Longrightarrow>
   findNextState_loop trs from ev = Some (To t)"
  by (induction pre arbitrary: trs) auto

lemma findNextState_loop_None:
  "(findNextState_loop trs from ev = None) =
   (\<forall>u \<in> set trs. \<not> (State.Name (From u) = State.Name from \<and> Event.Name (Event u) = Event.Name ev))"
  by (induction trs) auto

lemma findNextState_loop_Some:
  "findNextState_loop trs from ev = Some to \<Longrightarrow>
   \<exists>t \<in> set trs. State.Name (From t) = State.Name from \<and> Event.Name (Event t) = Event.Name ev \<and> To t = to"
  by (induction trs) (auto split: if_splits)

lemmas example_defs = dupFSM_def testFSM_def dupTransitions_def testTransitions_def testStates_def
  testEvents_def declared_def genesis_def recorded_def doc1_def doc2_def

lemmas memory_defs = MemoryStorage_impl_def MemoryStorage_SaveTransition_def
  MemoryStorage_GetCurrentState_def MemoryStorage_GetTransitions_def NewMemoryStorage_def

text \<open>\<^verbatim>\<open>New\<close> accepts both example workflows.\<close>

lemma New_testFSM: "New testStates testEvents testTransitions (Some MemoryStorage_impl) = Inr testFSM"
  by (simp add: New_def testFSM_def testStates_def testEvents_def testTransitions_def declared_def)

lemma New_dupFSM: "New testStates testEvents dupTransitions (Some MemoryStorage_impl) = Inr dupFSM"
  by (simp add: New_def dupFSM_def testStates_def testEvents_def dupTransitions_def declared_def)

section \<open>Transition lookup\<close>

text \<open>
  Claim C2. The lookup of \<^verbatim>\<open>findNextState\<close> goes through the declared
  transitions in declaration order and returns the target of the first one whose
  \<open>from\<close> and \<open>event\<close> names both equal the query (so nothing declared before it
  matches, whatever is declared after it); when none matches it returns an error that
  wraps \<^verbatim>\<open>ErrInvalidTransition\<close>. \<^verbatim>\<open>GetNextState\<close> is this lookup, and
  \<^verbatim>\<open>CanTrigger\<close> and \<^verbatim>\<open>Trigger\<close> decide by it from the entity's current state.
\<close>

theorem findNextState_first_match:
  "(FSM.transitions f = pre @ t # post \<and>
    (\<forall>u \<in> set pre. \<not> (State.Name (From u) = State.Name from \<and> Event.Name (Event u) = Event.Name ev)) \<and>
    State.Name (From t) = State.Name from \<and> Event.Name (Event t) = Event.Name ev
      \<longrightarrow> FSM_findNextState f from ev = Inr (To t)) \<and>
   ((\<forall>u \<in> set (FSM.transitions f).
        \<not> (State.Name (From u) = State.Name from \<and> Event.Name (Event u) = Event.Name ev))
      \<longrightarrow> (\<exists>err. FSM_findNextState f from ev = Inl err \<and> errors_Is err ErrInvalidTransition)) \<and>
   FSM_GetNextState f from ev = FSM_findNextState f from ev \<and>
   (GetCurrentState (storage f) entity s = Inr from
      \<longrightarrow> FSM_CanTrigger f entity ev s = (\<exists>to. FSM_findNextState f from ev = Inr to)) \<and>
   (GetCurrentState (storage f) entity s = Inr from \<and> validateEvent ev (events f) = None
      \<longrightarrow> (case FSM_findNextState f from ev of
             Inl err \<Rightarrow> FSM_Trigger f entity ev createdBy now s = (Some err, s)
           | Inr to \<Rightarrow> FSM_Trigger f entity ev createdBy now s =
               SaveTransition (storage f)
                 \<lparr>Entity = entity,
                  Transition = \<lparr>From = from, To = to, Event = ev,
                                CreatedAt = now, CreatedBy = createdBy\<rparr>\<rparr> s))"
proof (intro conjI impI)
  assume "FSM.transitions f = pre @ t # post \<and>
    (\<forall>u \<in> set pre. \<not> (State.Name (From u) = State.Name from \<and> Event.Name (Event u) = Event.Name ev)) \<and>
    State.Name (From t) = State.Name from \<and> Event.Name (Event t) = Event.Name ev"
  then have "findNextState_loop (FSM.transitions f) from ev = Some (To t)"
    using findNextState_loop_first [of "FSM.transitions f" pre t post "from" ev] by blast
  then show "FSM_findNextState f from ev = Inr (To t)"
    by (simp add: FSM_findNextState_def)
next
  assume "\<forall>u \<in> set (FSM.transitions f).
        \<not> (State.Name (From u) = State.Name from \<and> Event.Name (Event u) = Event.Name ev)"
  then have "findNextState_loop (FSM.transitions f) from ev = None"
    by (simp add: findNextState_loop_None)
  then show "\<exists>err. FSM_findNextState f from ev = Inl err \<and> errors_Is err ErrInvalidTransition"
    by (simp add: FSM_findNextState_def)
next
  show "FSM_GetNextState f from ev = FSM_findNextState f from ev"
    by (simp add: FSM_GetNextState_def)
next
  assume "GetCurrentState (storage f) entity s = Inr from"
  then show "FSM_CanTrigger f entity ev s = (\<exists>to. FSM_findNextState f from ev = Inr to)"
    by (simp add: FSM_CanTrigger_def split: sum.split)
next
  assume "GetCurrentState (storage f) entity s = Inr from \<and> validateEvent ev (events f) = None"
  then show "case FSM_findNextState f from ev of
             Inl err \<Rightarrow> FSM_Trigger f entity ev createdBy now s = (Some err, s)
           | Inr to \<Rightarrow> FSM_Trigger f entity ev createdBy now s =
               SaveTransition (storage f)
                 \<lparr>Entity = entity,
                  Transition = \<lparr>From = from, To = to, Event = ev,
                                CreatedAt = now, CreatedBy = createdBy\<rparr>\<rparr> s"
    by (simp add: FSM_Trigger_def split: sum.split)
qed

theorem findNextState_first_match_witness:
  "FSM_findNextState dupFSM \<lparr>State.Name = ''draft''\<rparr> \<lparr>Event.Name = ''submit''\<rparr>
     = Inr \<lparr>State.Name = ''submitted''\<rparr> \<and>
   (\<exists>err. FSM_findNextState dupFSM \<lparr>State.Name = ''draft''\<rparr> \<lparr>Event.Name = ''approve''\<rparr> = Inl err
      \<and> errors_Is err ErrInvalidTransition) \<and>
   FSM_CanTrigger dupFSM doc1 \<lparr>Event.Name = ''submit''\<rparr>
     \<lparr>MemoryStorage.transitions = [genesis doc1 ''draft'' ''alice'' 1]\<rparr> \<and>
   FSM_Trigger dupFSM doc1 \<lparr>Event.Name = ''submit''\<rparr> ''alice'' 2
     \<lparr>MemoryStorage.transitions = [genesis doc1 ''draft'' ''alice'' 1]\<rparr> =
   (None, \<lparr>MemoryStorage.transitions = [genesis doc1 ''draft'' ''alice'' 1,
       \<lparr>Entity = doc1, Transition = \<lparr>From = \<lparr>State.Name = ''draft''\<rparr>, To = \<lparr>State.Name = ''submitted''\<rparr>,
          Event = \<lparr>Event.Name = ''submit''\<rparr>, CreatedAt = 2, CreatedBy = ''alice''\<rparr>\<rparr>]\<rparr>)"
proof -
  let ?d = "\<lparr>State.Name = ''draft''\<rparr>"
  let ?m = "\<lparr>MemoryStorage.transitions = [genesis doc1 ''draft'' ''alice'' 1]\<rparr>"
  have cur: "GetCurrentState (storage dupFSM) doc1 ?m = Inr ?d"
    by (simp add: example_defs memory_defs)
  have ok: "validateEvent \<lparr>Event.Name = ''submit''\<rparr> (events dupFSM) = None"
    by (simp add: example_defs)
  note a = findNextState_first_match [of dupFSM "[]" "declared ''draft'' ''submit'' ''submitted''"
      "[declared ''draft'' ''submit'' ''approved'']" ?d "\<lparr>Event.Name = ''submit''\<rparr>"
      doc1 ?m "''alice''" 2]
  note b = findNextState_first_match [of dupFSM "[]" "declared ''draft'' ''submit'' ''submitted''"
      "[declared ''draft'' ''submit'' ''approved'']" ?d "\<lparr>Event.Name = ''approve''\<rparr>"
      doc1 ?m "''alice''" 2]
  have 1: "FSM_findNextState dupFSM ?d \<lparr>Event.Name = ''submit''\<rparr> = Inr \<lparr>State.Name = ''submitted''\<rparr>"
    using a by (simp add: example_defs)
  have 2: "\<exists>err. FSM_findNextState dupFSM ?d \<lparr>Event.Name = ''approve''\<rparr> = Inl err
      \<and> errors_Is err ErrInvalidTransition"
    using b by (simp add: example_defs)
  have 3: "FSM_CanTrigger dupFSM doc1 \<lparr>Event.Name = ''submit''\<rparr> ?m"
    using a cur 1 by simp
  have 4: "FSM_Trigger dupFSM doc1 \<lparr>Event.Name = ''submit''\<rparr> ''alice'' 2 ?m =
     SaveTransition (storage dupFSM)
                 \<lparr>Entity = doc1,
                  Transition = \<lparr>From = ?d, To = \<lparr>State.Name = ''submitted''\<rparr>, Event = \<lparr>Event.Name = ''submit''\<rparr>,
                                CreatedAt = 2, CreatedBy = ''alice''\<rparr>\<rparr> ?m"
    using a cur ok 1 by simp
  show ?thesis using 1 2 3 4 by (simp add: example_defs memory_defs)
qed

section \<open>Construction\<close>

lemma validateState_image: "(validateState st sts = None) = (State.Name st \<in> State.Name ` set sts)"
  by (induction sts) auto

lemma validateEvent_image: "(validateEvent ev evs = None) = (Event.Name ev \<in> Event.Name ` set evs)"
  by (induction evs) auto

lemma New_loop_Some_iff:
  "(\<exists>err. New_loop trs sts evs = Some err) =
   (\<exists>t \<in> set trs. State.Name (From t) \<notin> State.Name ` set sts
       \<or> State.Name (To t) \<notin> State.Name ` set sts
       \<or> Event.Name (Event t) \<notin> Event.Name ` set evs)"
proof -
  have "(\<exists>err. New_loop trs sts evs = Some err) = (New_loop trs sts evs \<noteq> None)"
    by auto
  then show ?thesis
    by (simp only: New_loop_None validateState_image validateEvent_image) blast
qed

text \<open>
  Claim C3. \<^verbatim>\<open>New\<close> returns an error and no engine exactly when the states, the
  events or the transitions are empty, the storage is \<^verbatim>\<open>nil\<close>, or some declared
  transition names a \<open>from\<close> or \<open>to\<close> state that is not declared or an event that is
  not declared. In every other case, duplicates of a \<open>from\<close> and \<open>event\<close> included,
  it returns the engine holding the four arguments.
\<close>

theorem New_fails_exactly_when:
  "((\<exists>err. New sts evs trs st = Inl err) =
      (sts = [] \<or> evs = [] \<or> trs = [] \<or> st = None \<or>
       (\<exists>t \<in> set trs. State.Name (From t) \<notin> State.Name ` set sts
           \<or> State.Name (To t) \<notin> State.Name ` set sts
           \<or> Event.Name (Event t) \<notin> Event.Name ` set evs))) \<and>
   (sts \<noteq> [] \<and> evs \<noteq> [] \<and> trs \<noteq> [] \<and> st = Some sto \<and>
    (\<forall>t \<in> set trs. State.Name (From t) \<in> State.Name ` set sts
        \<and> State.Name (To t) \<in> State.Name ` set sts
        \<and> Event.Name (Event t) \<in> Event.Name ` set evs)
      \<longrightarrow> New sts evs trs st =
            Inr \<lparr>states = sts, events = evs, FSM.transitions = trs, storage = sto\<rparr>)"
proof (intro conjI impI)
  have loop: "(\<exists>err. New_loop trs sts evs = Some err) =
      (\<exists>t \<in> set trs. State.Name (From t) \<notin> State.Name ` set sts
           \<or> State.Name (To t) \<notin> State.Name ` set sts
           \<or> Event.Name (Event t) \<notin> Event.Name ` set evs)"
    by (rule New_loop_Some_iff)
  show "(\<exists>err. New sts evs trs st = Inl err) =
      (sts = [] \<or> evs = [] \<or> trs = [] \<or> st = None \<or>
       (\<exists>t \<in> set trs. State.Name (From t) \<notin> State.Name ` set sts
           \<or> State.Name (To t) \<notin> State.Name ` set sts
           \<or> Event.Name (Event t) \<notin> Event.Name ` set evs))"
    unfolding loop [symmetric]
    by (cases st; cases "New_loop trs sts evs") (simp_all add: New_def)
next
  assume ok: "sts \<noteq> [] \<and> evs \<noteq> [] \<and> trs \<noteq> [] \<and> st = Some sto \<and>
    (\<forall>t \<in> set trs. State.Name (From t) \<in> State.Name ` set sts
        \<and> State.Name (To t) \<in> State.Name ` set sts
        \<and> Event.Name (Event t) \<in> Event.Name ` set evs)"
  then have "New_loop trs sts evs = None"
    by (simp add: New_loop_None validateState_image validateEvent_image)
  with ok show "New sts evs trs st =
            Inr \<lparr>states = sts, events = evs, FSM.transitions = trs, storage = sto\<rparr>"
    by (simp add: New_def)
qed

theorem New_fails_exactly_when_witness:
  "New testStates testEvents dupTransitions (Some MemoryStorage_impl) = Inr dupFSM \<and>
   (\<exists>err. New testStates testEvents [declared ''invalid'' ''submit'' ''submitted'']
        (Some MemoryStorage_impl) = Inl err)"
proof -
  have 1: "New testStates testEvents dupTransitions (Some MemoryStorage_impl) = Inr dupFSM"
    using New_fails_exactly_when [of testStates testEvents dupTransitions
        "Some MemoryStorage_impl" MemoryStorage_impl]
    by (simp add: example_defs)
  have 2: "\<exists>err. New testStates testEvents [declared ''invalid'' ''submit'' ''submitted'']
        (Some MemoryStorage_impl) = Inl err"
    using New_fails_exactly_when [of testStates testEvents
        "[declared ''invalid'' ''submit'' ''submitted'']" "Some MemoryStorage_impl" MemoryStorage_impl]
    by (simp add: example_defs)
  show ?thesis using 1 2 by simp
qed

section \<open>Reading the reference storage\<close>

lemma MemoryStorage_GetCurrentState_last:
  "MemoryStorage_GetCurrentState e m =
     (if filter (\<lambda>r. Entity r = e) (MemoryStorage.transitions m) = [] then Inl ErrEntityNotFound
      else Inr (To (Transition (last (filter (\<lambda>r. Entity r = e) (MemoryStorage.transitions m))))))"
  by (simp add: MemoryStorage_GetCurrentState_def GetCurrentState_loop_take)

lemma MemoryStorage_GetTransitions_filter:
  "MemoryStorage_GetTransitions e m = Inr (filter (\<lambda>r. Entity r = e) (MemoryStorage.transitions m))"
  by (simp add: MemoryStorage_GetTransitions_def GetTransitions_loop_filter)

lemma FSM_GetState_mem:
  "storage f = MemoryStorage_impl \<Longrightarrow>
   FSM_GetState f e m =
     (if filter (\<lambda>r. Entity r = e) (MemoryStorage.transitions m) = [] then Inl ErrEntityNotFound
      else Inr (To (Transition (last (filter (\<lambda>r. Entity r = e) (MemoryStorage.transitions m))))))"
  by (simp add: FSM_GetState_def MemoryStorage_impl_def MemoryStorage_GetCurrentState_last)

lemma FSM_GetTransitions_mem:
  "storage f = MemoryStorage_impl \<Longrightarrow>
   FSM_GetTransitions f e m = Inr (filter (\<lambda>r. Entity r = e) (MemoryStorage.transitions m))"
  by (simp add: FSM_GetTransitions_def MemoryStorage_impl_def MemoryStorage_GetTransitions_filter)

lemma SaveTransition_mem:
  "SaveTransition MemoryStorage_impl et m =
     (None, m\<lparr>MemoryStorage.transitions := MemoryStorage.transitions m @ [et]\<rparr>)"
  by (simp add: MemoryStorage_impl_def MemoryStorage_SaveTransition_def)

section \<open>Entities without records\<close>

lemma FSM_Start_mem:
  "storage f = MemoryStorage_impl \<Longrightarrow>
   FSM_Start f e s createdBy now m =
     (case validateState s (states f) of
        Some err \<Rightarrow> (Some err, m)
      | None \<Rightarrow>
          (None, m\<lparr>MemoryStorage.transitions := MemoryStorage.transitions m @
             [\<lparr>Entity = e,
               Transition = \<lparr>From = \<lparr>State.Name = ''''\<rparr>, To = s,
                             Event = \<lparr>Event.Name = ''start''\<rparr>,
                             CreatedAt = now, CreatedBy = createdBy\<rparr>\<rparr>]\<rparr>))"
  by (simp add: FSM_Start_def SaveTransition_mem split: option.split)

lemma FSM_Trigger_mem:
  "storage f = MemoryStorage_impl \<Longrightarrow>
   FSM_Trigger f e ev createdBy now m =
     (case FSM_GetState f e m of
        Inl err \<Rightarrow> (Some (fmt_Errorf ''failed to get current state: %w'' err []), m)
      | Inr cur \<Rightarrow>
     (case validateEvent ev (events f) of
        Some err \<Rightarrow> (Some err, m)
      | None \<Rightarrow>
     (case FSM_findNextState f cur ev of
        Inl err \<Rightarrow> (Some err, m)
      | Inr nxt \<Rightarrow>
          (None, m\<lparr>MemoryStorage.transitions := MemoryStorage.transitions m @
             [\<lparr>Entity = e,
               Transition = \<lparr>From = cur, To = nxt, Event = ev,
                             CreatedAt = now, CreatedBy = createdBy\<rparr>\<rparr>]\<rparr>))))"
  by (simp add: FSM_Trigger_def FSM_GetState_def SaveTransition_mem
      split: option.split sum.split)

text \<open>
  Claim C10. With the reference storage, \<^verbatim>\<open>GetTransitions\<close> of an entity that has
  no record returns the empty sequence and no error, where \<^verbatim>\<open>GetState\<close> returns
  \<^verbatim>\<open>ErrEntityNotFound\<close> and \<^verbatim>\<open>Trigger\<close> fails with an error wrapping it.
\<close>

theorem GetTransitions_unknown_entity:
  assumes "storage f = MemoryStorage_impl"
    and "\<forall>u \<in> set (MemoryStorage.transitions m). Entity u \<noteq> e"
  shows "FSM_GetTransitions f e m = Inr [] \<and>
         FSM_GetState f e m = Inl ErrEntityNotFound \<and>
         (\<exists>err. FSM_Trigger f e ev createdBy now m = (Some err, m)
            \<and> errors_Is err ErrEntityNotFound)"
proof -
  from assms(2) have none: "filter (\<lambda>r. Entity r = e) (MemoryStorage.transitions m) = []"
    by (simp add: filter_empty_conv)
  have 1: "FSM_GetTransitions f e m = Inr []"
    using assms(1) none by (simp add: FSM_GetTransitions_mem)
  have 2: "FSM_GetState f e m = Inl ErrEntityNotFound"
    using assms(1) none by (simp add: FSM_GetState_mem)
  have 3: "\<exists>err. FSM_Trigger f e ev createdBy now m = (Some err, m)
            \<and> errors_Is err ErrEntityNotFound"
    using assms(1) 2 by (simp add: FSM_Trigger_mem)
  show ?thesis using 1 2 3 by simp
qed

theorem GetTransitions_unknown_entity_witness:
  "FSM_GetTransitions testFSM doc2
     \<lparr>MemoryStorage.transitions = [genesis doc1 ''draft'' ''alice'' 1]\<rparr> = Inr [] \<and>
   FSM_GetTransitions testFSM doc1 NewMemoryStorage = Inr [] \<and>
   (\<exists>err. FSM_Trigger testFSM doc1 \<lparr>Event.Name = ''submit''\<rparr> ''alice'' 1 NewMemoryStorage
        = (Some err, NewMemoryStorage) \<and> errors_Is err ErrEntityNotFound)"
proof -
  have st: "storage testFSM = MemoryStorage_impl"
    by (simp add: testFSM_def)
  have a: "\<forall>u \<in> set (MemoryStorage.transitions
       \<lparr>MemoryStorage.transitions = [genesis doc1 ''draft'' ''alice'' 1]\<rparr>). Entity u \<noteq> doc2"
    by (simp add: genesis_def doc1_def doc2_def)
  have b: "\<forall>u \<in> set (MemoryStorage.transitions NewMemoryStorage). Entity u \<noteq> doc1"
    by (simp add: NewMemoryStorage_def)
  show ?thesis
    using GetTransitions_unknown_entity [OF st a]
      GetTransitions_unknown_entity [OF st b, of "\<lparr>Event.Name = ''submit''\<rparr>" "''alice''" 1]
    by simp
qed

section \<open>Start\<close>

lemma validateState_Some_Is:
  "validateState st sts = Some err \<Longrightarrow> errors_Is err ErrInvalidState"
  by (drule validateState_Some) simp

lemma validateEvent_Some_Is:
  "validateEvent ev evs = Some err \<Longrightarrow> errors_Is err ErrInvalidEvent \<and> \<not> errors_Is err ErrInvalidTransition"
  by (drule validateEvent_Some) simp

text \<open>
  Claim C7. With the reference storage, \<^verbatim>\<open>Start\<close> with a state that is not declared
  returns an error wrapping \<^verbatim>\<open>ErrInvalidState\<close> and leaves the log as it was. With
  a declared state it returns no error and appends exactly one record: \<open>from\<close> the
  empty name, event \<open>start\<close>, \<open>to\<close> the initial state, with the actor and the clock
  reading; the initial state is then the entity's current state. Nothing is asked of
  the log before the call, so a second \<^verbatim>\<open>Start\<close> of the same entity succeeds as
  well and its state becomes the current one.
\<close>

theorem Start_appends_genesis:
  assumes "storage f = MemoryStorage_impl"
  shows "(State.Name s \<notin> State.Name ` set (states f)
            \<longrightarrow> (\<exists>err. FSM_Start f e s createdBy now m = (Some err, m)
                   \<and> errors_Is err ErrInvalidState)) \<and>
         (State.Name s \<in> State.Name ` set (states f)
            \<longrightarrow> FSM_Start f e s createdBy now m =
                  (None, m\<lparr>MemoryStorage.transitions := MemoryStorage.transitions m @
                     [\<lparr>Entity = e,
                       Transition = \<lparr>From = \<lparr>State.Name = ''''\<rparr>, To = s,
                                     Event = \<lparr>Event.Name = ''start''\<rparr>,
                                     CreatedAt = now, CreatedBy = createdBy\<rparr>\<rparr>]\<rparr>)
                \<and> FSM_GetState f e (snd (FSM_Start f e s createdBy now m)) = Inr s) \<and>
         (State.Name s \<in> State.Name ` set (states f) \<and> State.Name s' \<in> State.Name ` set (states f)
            \<longrightarrow> fst (FSM_Start f e s' createdBy' now'
                       (snd (FSM_Start f e s createdBy now m))) = None
                \<and> FSM_GetState f e
                     (snd (FSM_Start f e s' createdBy' now'
                        (snd (FSM_Start f e s createdBy now m)))) = Inr s')"
proof -
  have invalid: "\<exists>err. FSM_Start f e s createdBy now m = (Some err, m)
                   \<and> errors_Is err ErrInvalidState"
    if "State.Name s \<notin> State.Name ` set (states f)"
  proof -
    from that have "validateState s (states f) \<noteq> None"
      by (simp add: validateState_image)
    then obtain err where err: "validateState s (states f) = Some err"
      by blast
    then have "FSM_Start f e s createdBy now m = (Some err, m)"
      using assms by (simp add: FSM_Start_mem)
    with err show ?thesis
      by (blast dest: validateState_Some_Is)
  qed
  have valid: "FSM_Start f e s createdBy now m =
                  (None, m\<lparr>MemoryStorage.transitions := MemoryStorage.transitions m @
                     [\<lparr>Entity = e,
                       Transition = \<lparr>From = \<lparr>State.Name = ''''\<rparr>, To = s,
                                     Event = \<lparr>Event.Name = ''start''\<rparr>,
                                     CreatedAt = now, CreatedBy = createdBy\<rparr>\<rparr>]\<rparr>)
                \<and> FSM_GetState f e (snd (FSM_Start f e s createdBy now m)) = Inr s"
    if "State.Name s \<in> State.Name ` set (states f)" for s createdBy now m
  proof -
    from that have ok: "validateState s (states f) = None"
      by (simp add: validateState_image)
    then have app: "FSM_Start f e s createdBy now m =
                  (None, m\<lparr>MemoryStorage.transitions := MemoryStorage.transitions m @
                     [\<lparr>Entity = e,
                       Transition = \<lparr>From = \<lparr>State.Name = ''''\<rparr>, To = s,
                                     Event = \<lparr>Event.Name = ''start''\<rparr>,
                                     CreatedAt = now, CreatedBy = createdBy\<rparr>\<rparr>]\<rparr>)"
      using assms by (simp add: FSM_Start_mem)
    have "FSM_GetState f e (snd (FSM_Start f e s createdBy now m)) = Inr s"
      using assms by (simp add: app FSM_GetState_mem)
    with app show ?thesis by simp
  qed
  have twice: "fst (FSM_Start f e s' createdBy' now'
                       (snd (FSM_Start f e s createdBy now m))) = None
                \<and> FSM_GetState f e
                     (snd (FSM_Start f e s' createdBy' now'
                        (snd (FSM_Start f e s createdBy now m)))) = Inr s'"
    if "State.Name s' \<in> State.Name ` set (states f)"
  proof
    show "fst (FSM_Start f e s' createdBy' now' (snd (FSM_Start f e s createdBy now m))) = None"
      using valid [OF that, of createdBy' now' "snd (FSM_Start f e s createdBy now m)"]
      by (simp only: fst_conv)
    show "FSM_GetState f e
            (snd (FSM_Start f e s' createdBy' now'
               (snd (FSM_Start f e s createdBy now m)))) = Inr s'"
      using valid [OF that, of createdBy' now' "snd (FSM_Start f e s createdBy now m)"]
      by (rule conjunct2)
  qed
  show ?thesis
    using invalid valid [of s createdBy now m] twice by blast
qed

theorem Start_appends_genesis_witness:
  "(\<exists>err. FSM_Start testFSM doc1 \<lparr>State.Name = ''invalid''\<rparr> ''user1'' 1 NewMemoryStorage
       = (Some err, NewMemoryStorage) \<and> errors_Is err ErrInvalidState) \<and>
   FSM_Start testFSM doc1 \<lparr>State.Name = ''draft''\<rparr> ''user1'' 1 NewMemoryStorage
       = (None, \<lparr>MemoryStorage.transitions = [genesis doc1 ''draft'' ''user1'' 1]\<rparr>) \<and>
   FSM_Start testFSM doc1 \<lparr>State.Name = ''approved''\<rparr> ''user2'' 2
       \<lparr>MemoryStorage.transitions = [genesis doc1 ''draft'' ''user1'' 1]\<rparr>
       = (None, \<lparr>MemoryStorage.transitions =
                    [genesis doc1 ''draft'' ''user1'' 1, genesis doc1 ''approved'' ''user2'' 2]\<rparr>) \<and>
   FSM_GetState testFSM doc1
       (snd (FSM_Start testFSM doc1 \<lparr>State.Name = ''approved''\<rparr> ''user2'' 2
          (snd (FSM_Start testFSM doc1 \<lparr>State.Name = ''draft''\<rparr> ''user1'' 1 NewMemoryStorage))))
       = Inr \<lparr>State.Name = ''approved''\<rparr>"
proof -
  have st: "storage testFSM = MemoryStorage_impl"
    by (simp add: testFSM_def)
  have sts: "states testFSM = testStates"
    by (simp add: testFSM_def)
  have m0: "NewMemoryStorage = \<lparr>MemoryStorage.transitions = []\<rparr>"
    by (simp add: NewMemoryStorage_def)
  note a = Start_appends_genesis [OF st, of "\<lparr>State.Name = ''invalid''\<rparr>" doc1 "''user1''" 1
      NewMemoryStorage]
  note b = Start_appends_genesis [OF st, of "\<lparr>State.Name = ''draft''\<rparr>" doc1 "''user1''" 1
      NewMemoryStorage "\<lparr>State.Name = ''approved''\<rparr>" "''user2''" 2]
  note c = Start_appends_genesis [OF st, of "\<lparr>State.Name = ''approved''\<rparr>" doc1 "''user2''" 2
      "\<lparr>MemoryStorage.transitions = [genesis doc1 ''draft'' ''user1'' 1]\<rparr>"]
  have 1: "\<exists>err. FSM_Start testFSM doc1 \<lparr>State.Name = ''invalid''\<rparr> ''user1'' 1 NewMemoryStorage
       = (Some err, NewMemoryStorage) \<and> errors_Is err ErrInvalidState"
    using a by (simp add: sts testStates_def)
  have 2: "FSM_Start testFSM doc1 \<lparr>State.Name = ''draft''\<rparr> ''user1'' 1 NewMemoryStorage
       = (None, \<lparr>MemoryStorage.transitions = [genesis doc1 ''draft'' ''user1'' 1]\<rparr>)"
    using b by (simp add: sts testStates_def genesis_def m0)
  have 3: "FSM_Start testFSM doc1 \<lparr>State.Name = ''approved''\<rparr> ''user2'' 2
       \<lparr>MemoryStorage.transitions = [genesis doc1 ''draft'' ''user1'' 1]\<rparr>
       = (None, \<lparr>MemoryStorage.transitions =
                    [genesis doc1 ''draft'' ''user1'' 1, genesis doc1 ''approved'' ''user2'' 2]\<rparr>)"
    using c by (simp add: sts testStates_def genesis_def)
  have 4: "FSM_GetState testFSM doc1
       (snd (FSM_Start testFSM doc1 \<lparr>State.Name = ''approved''\<rparr> ''user2'' 2
          (snd (FSM_Start testFSM doc1 \<lparr>State.Name = ''draft''\<rparr> ''user1'' 1 NewMemoryStorage))))
       = Inr \<lparr>State.Name = ''approved''\<rparr>"
  proof -
    have "State.Name \<lparr>State.Name = ''draft''\<rparr> \<in> State.Name ` set (states testFSM)"
      and "State.Name \<lparr>State.Name = ''approved''\<rparr> \<in> State.Name ` set (states testFSM)"
      by (simp_all add: sts testStates_def)
    then show ?thesis
      using b by blast
  qed
  show ?thesis
    by (intro conjI) (rule 1 2 3 4)+
qed

section \<open>Isolation of entities\<close>

lemma FSM_Start_log:
  assumes "storage f = MemoryStorage_impl"
  shows "MemoryStorage.transitions (snd (FSM_Start f a s createdBy now m)) = MemoryStorage.transitions m \<or>
         (\<exists>r. Entity r = a \<and> MemoryStorage.transitions (snd (FSM_Start f a s createdBy now m)) =
            MemoryStorage.transitions m @ [r])"
  using assms by (simp add: FSM_Start_mem split: option.split)

lemma FSM_Trigger_log:
  assumes "storage f = MemoryStorage_impl"
  shows "MemoryStorage.transitions (snd (FSM_Trigger f a ev createdBy now m)) = MemoryStorage.transitions m \<or>
         (\<exists>r. Entity r = a \<and> MemoryStorage.transitions (snd (FSM_Trigger f a ev createdBy now m)) =
            MemoryStorage.transitions m @ [r])"
  using assms by (simp add: FSM_Trigger_mem split: option.split sum.split)

lemma other_entity_reads:
  assumes "storage f = MemoryStorage_impl" and "a \<noteq> b"
    and "MemoryStorage.transitions m' = MemoryStorage.transitions m \<or>
         (\<exists>r. Entity r = a \<and> MemoryStorage.transitions m' = MemoryStorage.transitions m @ [r])"
  shows "FSM_GetTransitions f b m' = FSM_GetTransitions f b m \<and>
         FSM_GetState f b m' = FSM_GetState f b m"
  using assms by (auto simp: FSM_GetTransitions_mem FSM_GetState_mem)

text \<open>
  Claim C9. With the reference storage and two entities that differ in type or id,
  a \<^verbatim>\<open>Start\<close>, a \<^verbatim>\<open>Trigger\<close> or a saved record of the first leaves what
  \<^verbatim>\<open>GetTransitions\<close> and \<^verbatim>\<open>GetState\<close> return for the second as it was, whether
  the call succeeds or fails. The records returned for the first are all its own, and
  both of its reads are the same on the log without the records of the second.
\<close>

theorem entity_isolation:
  assumes "storage f = MemoryStorage_impl"
    and "Type a \<noteq> Type b \<or> ID a \<noteq> ID b"
  shows "FSM_GetTransitions f b (snd (FSM_Start f a s createdBy now m)) = FSM_GetTransitions f b m \<and>
         FSM_GetState f b (snd (FSM_Start f a s createdBy now m)) = FSM_GetState f b m \<and>
         FSM_GetTransitions f b (snd (FSM_Trigger f a ev createdBy now m)) = FSM_GetTransitions f b m \<and>
         FSM_GetState f b (snd (FSM_Trigger f a ev createdBy now m)) = FSM_GetState f b m \<and>
         (Entity et = a \<longrightarrow>
            FSM_GetTransitions f b (snd (SaveTransition (storage f) et m)) = FSM_GetTransitions f b m \<and>
            FSM_GetState f b (snd (SaveTransition (storage f) et m)) = FSM_GetState f b m) \<and>
         (\<forall>rs. FSM_GetTransitions f a m = Inr rs \<longrightarrow> (\<forall>r \<in> set rs. Entity r = a \<and> Entity r \<noteq> b)) \<and>
         FSM_GetTransitions f a
           (m\<lparr>MemoryStorage.transitions :=
                filter (\<lambda>r. Entity r \<noteq> b) (MemoryStorage.transitions m)\<rparr>) = FSM_GetTransitions f a m \<and>
         FSM_GetState f a
           (m\<lparr>MemoryStorage.transitions :=
                filter (\<lambda>r. Entity r \<noteq> b) (MemoryStorage.transitions m)\<rparr>) = FSM_GetState f a m"
proof -
  from assms(2) have ab: "a \<noteq> b" by auto
  have start: "FSM_GetTransitions f b (snd (FSM_Start f a s createdBy now m)) = FSM_GetTransitions f b m \<and>
         FSM_GetState f b (snd (FSM_Start f a s createdBy now m)) = FSM_GetState f b m"
    by (rule other_entity_reads [OF assms(1) ab FSM_Start_log [OF assms(1)]])
  have trigger: "FSM_GetTransitions f b (snd (FSM_Trigger f a ev createdBy now m)) = FSM_GetTransitions f b m \<and>
         FSM_GetState f b (snd (FSM_Trigger f a ev createdBy now m)) = FSM_GetState f b m"
    by (rule other_entity_reads [OF assms(1) ab FSM_Trigger_log [OF assms(1)]])
  have save: "FSM_GetTransitions f b (snd (SaveTransition (storage f) et m)) = FSM_GetTransitions f b m \<and>
            FSM_GetState f b (snd (SaveTransition (storage f) et m)) = FSM_GetState f b m"
    if "Entity et = a"
    using that assms(1) ab
    by (intro other_entity_reads [of f a b]) (auto simp: SaveTransition_mem)
  have own: "\<forall>rs. FSM_GetTransitions f a m = Inr rs \<longrightarrow> (\<forall>r \<in> set rs. Entity r = a \<and> Entity r \<noteq> b)"
    using assms(1) ab by (auto simp: FSM_GetTransitions_mem)
  have same: "filter (\<lambda>r. Entity r = a) (filter (\<lambda>r. Entity r \<noteq> b) (MemoryStorage.transitions m))
      = filter (\<lambda>r. Entity r = a) (MemoryStorage.transitions m)"
    using ab by (auto intro: filter_cong)
  have without: "FSM_GetTransitions f a
           (m\<lparr>MemoryStorage.transitions :=
                filter (\<lambda>r. Entity r \<noteq> b) (MemoryStorage.transitions m)\<rparr>) = FSM_GetTransitions f a m \<and>
         FSM_GetState f a
           (m\<lparr>MemoryStorage.transitions :=
                filter (\<lambda>r. Entity r \<noteq> b) (MemoryStorage.transitions m)\<rparr>) = FSM_GetState f a m"
    using assms(1) by (simp add: FSM_GetTransitions_mem FSM_GetState_mem same del: filter_filter)
  show ?thesis
    using start trigger save own without by blast
qed

theorem entity_isolation_witness:
  "ID doc1 \<noteq> ID doc2 \<and>
   FSM_GetTransitions testFSM doc2
     (snd (FSM_Trigger testFSM doc1 \<lparr>Event.Name = ''submit''\<rparr> ''alice'' 3
        \<lparr>MemoryStorage.transitions =
           [genesis doc1 ''draft'' ''alice'' 1, genesis doc2 ''submitted'' ''bob'' 2]\<rparr>))
     = Inr [genesis doc2 ''submitted'' ''bob'' 2] \<and>
   FSM_GetState testFSM doc2
     (snd (FSM_Trigger testFSM doc1 \<lparr>Event.Name = ''submit''\<rparr> ''alice'' 3
        \<lparr>MemoryStorage.transitions =
           [genesis doc1 ''draft'' ''alice'' 1, genesis doc2 ''submitted'' ''bob'' 2]\<rparr>))
     = Inr \<lparr>State.Name = ''submitted''\<rparr> \<and>
   FSM_GetState testFSM doc2
     (snd (FSM_Start testFSM doc1 \<lparr>State.Name = ''approved''\<rparr> ''alice'' 3
        \<lparr>MemoryStorage.transitions =
           [genesis doc1 ''draft'' ''alice'' 1, genesis doc2 ''submitted'' ''bob'' 2]\<rparr>))
     = Inr \<lparr>State.Name = ''submitted''\<rparr>"
proof -
  let ?m = "\<lparr>MemoryStorage.transitions =
           [genesis doc1 ''draft'' ''alice'' 1, genesis doc2 ''submitted'' ''bob'' 2]\<rparr>"
  have st: "storage testFSM = MemoryStorage_impl"
    by (simp add: testFSM_def)
  have ne: "Type doc1 \<noteq> Type doc2 \<or> ID doc1 \<noteq> ID doc2"
    by (simp add: doc1_def doc2_def)
  have rd: "FSM_GetTransitions testFSM doc2 ?m = Inr [genesis doc2 ''submitted'' ''bob'' 2]"
    "FSM_GetState testFSM doc2 ?m = Inr \<lparr>State.Name = ''submitted''\<rparr>"
    by (simp_all add: FSM_GetTransitions_mem FSM_GetState_mem st genesis_def doc1_def doc2_def)
  note iso = entity_isolation [OF st ne, of "\<lparr>State.Name = ''approved''\<rparr>" "''alice''" 3 ?m
      "\<lparr>Event.Name = ''submit''\<rparr>"]
  have id: "ID doc1 \<noteq> ID doc2"
    by (simp add: doc1_def doc2_def)
  show ?thesis
    using iso rd id by simp
qed

section \<open>Engines built by New\<close>

lemma New_Inr:
  "New sts evs trs st = Inr f \<Longrightarrow>
   states f = sts \<and> events f = evs \<and> FSM.transitions f = trs \<and> st = Some (storage f) \<and>
   New_loop trs sts evs = None"
  by (auto simp: New_def split: if_splits option.splits)

lemma FSM_findNextState_Inr_iff:
  "(\<exists>to. FSM_findNextState f cur ev = Inr to) =
   (\<exists>t \<in> set (FSM.transitions f).
       State.Name (From t) = State.Name cur \<and> Event.Name (Event t) = Event.Name ev)"
proof (cases "findNextState_loop (FSM.transitions f) cur ev")
  case None
  then have "\<forall>u \<in> set (FSM.transitions f).
       \<not> (State.Name (From u) = State.Name cur \<and> Event.Name (Event u) = Event.Name ev)"
    by (simp only: findNextState_loop_None)
  with None show ?thesis
    by (auto simp: FSM_findNextState_def)
next
  case (Some to)
  then have "findNextState_loop (FSM.transitions f) cur ev \<noteq> None" by simp
  then have "\<exists>t \<in> set (FSM.transitions f).
       State.Name (From t) = State.Name cur \<and> Event.Name (Event t) = Event.Name ev"
    by (simp add: findNextState_loop_None)
  with Some show ?thesis
    by (simp add: FSM_findNextState_def)
qed

lemma undeclared_event_no_transition:
  assumes "New sts evs trs st = Inr f" and "Event.Name ev \<notin> Event.Name ` set evs"
  shows "\<forall>t \<in> set (FSM.transitions f). Event.Name (Event t) \<noteq> Event.Name ev"
proof
  fix t assume "t \<in> set (FSM.transitions f)"
  with assms(1) have "validateEvent (Event t) evs = None"
    using New_Inr [OF assms(1)] by (simp add: New_loop_None)
  then have "Event.Name (Event t) \<in> Event.Name ` set evs"
    by (simp add: validateEvent_image)
  with assms(2) show "Event.Name (Event t) \<noteq> Event.Name ev" by auto
qed

section \<open>Trigger on a declared transition\<close>

lemma findNextState_loop_append:
  "findNextState_loop (xs @ ys) from ev =
     (case findNextState_loop xs from ev of
        Some to \<Rightarrow> Some to
      | None \<Rightarrow> findNextState_loop ys from ev)"
  by (induction xs) auto

text \<open>
  Two declared transitions may share \<open>from\<close> and \<open>event\<close>. In \<open>dupFSM\<close>, which
  \<^verbatim>\<open>New\<close> accepts, \<open>draft\<close>, \<open>submit\<close>, \<open>approved\<close> is declared, the entity is in
  \<open>draft\<close>, \<^verbatim>\<open>Trigger\<close> of \<open>submit\<close> succeeds, and the new current state is
  \<open>submitted\<close>, the target declared first, not \<open>approved\<close>.
\<close>

theorem Trigger_duplicate_counterexample:
  "New testStates testEvents dupTransitions (Some MemoryStorage_impl) = Inr dupFSM \<and>
   declared ''draft'' ''submit'' ''approved'' \<in> set (FSM.transitions dupFSM) \<and>
   FSM_GetState dupFSM doc1 \<lparr>MemoryStorage.transitions = [genesis doc1 ''draft'' ''alice'' 1]\<rparr>
     = Inr (From (declared ''draft'' ''submit'' ''approved'')) \<and>
   FSM_Trigger dupFSM doc1 (Event (declared ''draft'' ''submit'' ''approved'')) ''alice'' 2
       \<lparr>MemoryStorage.transitions = [genesis doc1 ''draft'' ''alice'' 1]\<rparr>
     = (None, \<lparr>MemoryStorage.transitions =
          [genesis doc1 ''draft'' ''alice'' 1,
           recorded doc1 ''draft'' ''submit'' ''submitted'' ''alice'' 2]\<rparr>) \<and>
   FSM_GetState dupFSM doc1
       \<lparr>MemoryStorage.transitions =
          [genesis doc1 ''draft'' ''alice'' 1,
           recorded doc1 ''draft'' ''submit'' ''submitted'' ''alice'' 2]\<rparr>
     = Inr \<lparr>State.Name = ''submitted''\<rparr> \<and>
   Inr \<lparr>State.Name = ''submitted''\<rparr>
     \<noteq> (Inr (To (declared ''draft'' ''submit'' ''approved'')) :: error + State)"
proof -
  have st: "storage dupFSM = MemoryStorage_impl"
    by (simp add: dupFSM_def)
  have 1: "declared ''draft'' ''submit'' ''approved'' \<in> set (FSM.transitions dupFSM)"
    by (simp add: dupFSM_def dupTransitions_def)
  have 2: "FSM_GetState dupFSM doc1 \<lparr>MemoryStorage.transitions = [genesis doc1 ''draft'' ''alice'' 1]\<rparr>
     = Inr (From (declared ''draft'' ''submit'' ''approved''))"
    by (simp add: FSM_GetState_mem st genesis_def declared_def)
  have nxt: "FSM_findNextState dupFSM \<lparr>State.Name = ''draft''\<rparr> \<lparr>Event.Name = ''submit''\<rparr>
     = Inr \<lparr>State.Name = ''submitted''\<rparr>"
    by (simp add: FSM_findNextState_def dupFSM_def dupTransitions_def declared_def)
  have ev: "validateEvent \<lparr>Event.Name = ''submit''\<rparr> (events dupFSM) = None"
    by (simp add: dupFSM_def testEvents_def)
  have 3: "FSM_Trigger dupFSM doc1 (Event (declared ''draft'' ''submit'' ''approved'')) ''alice'' 2
       \<lparr>MemoryStorage.transitions = [genesis doc1 ''draft'' ''alice'' 1]\<rparr>
     = (None, \<lparr>MemoryStorage.transitions =
          [genesis doc1 ''draft'' ''alice'' 1,
           recorded doc1 ''draft'' ''submit'' ''submitted'' ''alice'' 2]\<rparr>)"
    using 2 nxt ev by (simp add: FSM_Trigger_mem st declared_def recorded_def)
  have 4: "FSM_GetState dupFSM doc1
       \<lparr>MemoryStorage.transitions =
          [genesis doc1 ''draft'' ''alice'' 1,
           recorded doc1 ''draft'' ''submit'' ''submitted'' ''alice'' 2]\<rparr>
     = Inr \<lparr>State.Name = ''submitted''\<rparr>"
    by (simp add: FSM_GetState_mem st genesis_def recorded_def)
  have 5: "Inr \<lparr>State.Name = ''submitted''\<rparr>
     \<noteq> (Inr (To (declared ''draft'' ''submit'' ''approved'')) :: error + State)"
    by (simp add: declared_def)
  show ?thesis
    by (intro conjI) (rule New_dupFSM 1 2 3 4 5)+
qed

text \<open>
  Claim C1, amended. For an engine that \<^verbatim>\<open>New\<close> built over the reference storage
  and a declared transition \<open>t\<close>, if the entity's current state is the \<open>from\<close> of
  \<open>t\<close>, then \<^verbatim>\<open>Trigger\<close> with the event of \<open>t\<close> returns no error, appends one
  record, and the new current state is the target the lookup returns: the \<open>to\<close> of a
  declared transition with that \<open>from\<close> and \<open>event\<close>. It is the \<open>to\<close> of \<open>t\<close>
  whenever every transition declared before \<open>t\<close> with the same \<open>from\<close> and \<open>event\<close>
  has the same \<open>to\<close>.
\<close>

theorem Trigger_declared_transition:
  assumes "New sts evs trs (Some MemoryStorage_impl) = Inr f"
    and "trs = pre @ t # post"
    and "FSM_GetState f e m = Inr (From t)"
  shows "\<exists>to. FSM_GetNextState f (From t) (Event t) = Inr to \<and>
           FSM_Trigger f e (Event t) createdBy now m =
             (None, m\<lparr>MemoryStorage.transitions := MemoryStorage.transitions m @
                [\<lparr>Entity = e,
                  Transition = \<lparr>From = From t, To = to, Event = Event t,
                                CreatedAt = now, CreatedBy = createdBy\<rparr>\<rparr>]\<rparr>) \<and>
           FSM_GetState f e (snd (FSM_Trigger f e (Event t) createdBy now m)) = Inr to \<and>
           (\<exists>u \<in> set trs. State.Name (From u) = State.Name (From t)
               \<and> Event.Name (Event u) = Event.Name (Event t) \<and> To u = to) \<and>
           ((\<forall>u \<in> set pre. State.Name (From u) = State.Name (From t)
               \<and> Event.Name (Event u) = Event.Name (Event t) \<longrightarrow> To u = To t)
              \<longrightarrow> to = To t)"
proof -
  from New_Inr [OF assms(1)] have f: "FSM.transitions f = trs" "events f = evs"
    and st: "storage f = MemoryStorage_impl" and loop: "New_loop trs sts evs = None"
    by simp_all
  from assms(2) have t: "t \<in> set trs" by simp
  with loop have "validateEvent (Event t) evs = None"
    by (simp add: New_loop_None)
  then have ev: "validateEvent (Event t) (events f) = None"
    by (simp add: f)
  from t have "findNextState_loop trs (From t) (Event t) \<noteq> None"
    by (simp only: findNextState_loop_None) blast
  then obtain to where to: "findNextState_loop trs (From t) (Event t) = Some to"
    by blast
  then have nxt: "FSM_findNextState f (From t) (Event t) = Inr to"
    by (simp add: FSM_findNextState_def f)
  have trig: "FSM_Trigger f e (Event t) createdBy now m =
             (None, m\<lparr>MemoryStorage.transitions := MemoryStorage.transitions m @
                [\<lparr>Entity = e,
                  Transition = \<lparr>From = From t, To = to, Event = Event t,
                                CreatedAt = now, CreatedBy = createdBy\<rparr>\<rparr>]\<rparr>)"
    using assms(3) ev nxt st by (simp add: FSM_Trigger_mem)
  have state: "FSM_GetState f e (snd (FSM_Trigger f e (Event t) createdBy now m)) = Inr to"
    using st by (simp add: trig FSM_GetState_mem)
  have some: "\<exists>u \<in> set trs. State.Name (From u) = State.Name (From t)
               \<and> Event.Name (Event u) = Event.Name (Event t) \<and> To u = to"
    using findNextState_loop_Some [OF to] .
  have first: "to = To t"
    if same: "\<forall>u \<in> set pre. State.Name (From u) = State.Name (From t)
               \<and> Event.Name (Event u) = Event.Name (Event t) \<longrightarrow> To u = To t"
  proof (cases "findNextState_loop pre (From t) (Event t)")
    case None
    with to show ?thesis
      by (simp add: assms(2) findNextState_loop_append)
  next
    case (Some x)
    with to have "x = to"
      by (simp add: assms(2) findNextState_loop_append)
    moreover from findNextState_loop_Some [OF Some] same have "x = To t"
      by blast
    ultimately show ?thesis by simp
  qed
  show ?thesis
    using nxt trig state some first by (auto simp: FSM_GetNextState_def)
qed

theorem Trigger_declared_transition_witness:
  "FSM_Trigger testFSM doc1 \<lparr>Event.Name = ''submit''\<rparr> ''user1'' 2
       \<lparr>MemoryStorage.transitions = [genesis doc1 ''draft'' ''user1'' 1]\<rparr>
     = (None, \<lparr>MemoryStorage.transitions =
          [genesis doc1 ''draft'' ''user1'' 1,
           recorded doc1 ''draft'' ''submit'' ''submitted'' ''user1'' 2]\<rparr>) \<and>
   FSM_GetState testFSM doc1
     (snd (FSM_Trigger testFSM doc1 \<lparr>Event.Name = ''submit''\<rparr> ''user1'' 2
        \<lparr>MemoryStorage.transitions = [genesis doc1 ''draft'' ''user1'' 1]\<rparr>))
     = Inr \<lparr>State.Name = ''submitted''\<rparr>"
proof -
  let ?m = "\<lparr>MemoryStorage.transitions = [genesis doc1 ''draft'' ''user1'' 1]\<rparr>"
  let ?t = "declared ''draft'' ''submit'' ''submitted''"
  have st: "storage testFSM = MemoryStorage_impl"
    by (simp add: testFSM_def)
  have split: "testTransitions = [] @ ?t # tl testTransitions"
    by (simp add: testTransitions_def)
  have cur: "FSM_GetState testFSM doc1 ?m = Inr (From ?t)"
    by (simp add: FSM_GetState_mem st genesis_def declared_def)
  from Trigger_declared_transition [OF New_testFSM split cur, of "''user1''" 2]
  obtain to where to: "FSM_Trigger testFSM doc1 (Event ?t) ''user1'' 2 ?m =
             (None, ?m\<lparr>MemoryStorage.transitions := MemoryStorage.transitions ?m @
                [\<lparr>Entity = doc1,
                  Transition = \<lparr>From = From ?t, To = to, Event = Event ?t,
                                CreatedAt = 2, CreatedBy = ''user1''\<rparr>\<rparr>]\<rparr>)"
    "FSM_GetState testFSM doc1 (snd (FSM_Trigger testFSM doc1 (Event ?t) ''user1'' 2 ?m)) = Inr to"
    "to = To ?t"
    by auto
  have ev: "Event ?t = \<lparr>Event.Name = ''submit''\<rparr>" and target: "To ?t = \<lparr>State.Name = ''submitted''\<rparr>"
    and src: "From ?t = \<lparr>State.Name = ''draft''\<rparr>"
    by (simp_all add: declared_def)
  have 1: "FSM_Trigger testFSM doc1 \<lparr>Event.Name = ''submit''\<rparr> ''user1'' 2 ?m
     = (None, \<lparr>MemoryStorage.transitions =
          [genesis doc1 ''draft'' ''user1'' 1,
           recorded doc1 ''draft'' ''submit'' ''submitted'' ''user1'' 2]\<rparr>)"
    using to(1) by (simp add: to(3) ev target src recorded_def)
  have 2: "FSM_GetState testFSM doc1
     (snd (FSM_Trigger testFSM doc1 \<lparr>Event.Name = ''submit''\<rparr> ''user1'' 2 ?m))
     = Inr \<lparr>State.Name = ''submitted''\<rparr>"
    using to(2) by (simp only: to(3) ev target)
  show ?thesis
    by (intro conjI) (rule 1 2)+
qed

section \<open>Trigger without a declared transition\<close>

text \<open>
  \<^verbatim>\<open>Trigger\<close> checks that the event is declared before it looks for a transition.
  In the workflow of the tests no transition leaves \<open>draft\<close> on \<open>cancel\<close>, which is
  not a declared event; \<^verbatim>\<open>Trigger\<close> of \<open>cancel\<close> on an entity in \<open>draft\<close> returns
  the error of \<^verbatim>\<open>validateEvent\<close>, which wraps \<^verbatim>\<open>ErrInvalidEvent\<close> and not
  \<^verbatim>\<open>ErrInvalidTransition\<close>.
\<close>

theorem Trigger_undeclared_event_counterexample:
  "New testStates testEvents testTransitions (Some MemoryStorage_impl) = Inr testFSM \<and>
   FSM_GetState testFSM doc1 \<lparr>MemoryStorage.transitions = [genesis doc1 ''draft'' ''user1'' 1]\<rparr>
     = Inr \<lparr>State.Name = ''draft''\<rparr> \<and>
   findNextState_loop (FSM.transitions testFSM) \<lparr>State.Name = ''draft''\<rparr> \<lparr>Event.Name = ''cancel''\<rparr>
     = None \<and>
   FSM_Trigger testFSM doc1 \<lparr>Event.Name = ''cancel''\<rparr> ''user1'' 2
       \<lparr>MemoryStorage.transitions = [genesis doc1 ''draft'' ''user1'' 1]\<rparr>
     = (Some (fmt_Errorf ''%w: event %q is not valid'' ErrInvalidEvent [''cancel'']),
        \<lparr>MemoryStorage.transitions = [genesis doc1 ''draft'' ''user1'' 1]\<rparr>) \<and>
   \<not> errors_Is (fmt_Errorf ''%w: event %q is not valid'' ErrInvalidEvent [''cancel''])
       ErrInvalidTransition"
proof -
  have st: "storage testFSM = MemoryStorage_impl"
    by (simp add: testFSM_def)
  have 1: "FSM_GetState testFSM doc1 \<lparr>MemoryStorage.transitions = [genesis doc1 ''draft'' ''user1'' 1]\<rparr>
     = Inr \<lparr>State.Name = ''draft''\<rparr>"
    by (simp add: FSM_GetState_mem st genesis_def)
  have 2: "findNextState_loop (FSM.transitions testFSM) \<lparr>State.Name = ''draft''\<rparr>
      \<lparr>Event.Name = ''cancel''\<rparr> = None"
    by (simp add: testFSM_def testTransitions_def declared_def)
  have ev: "validateEvent \<lparr>Event.Name = ''cancel''\<rparr> (events testFSM)
      = Some (fmt_Errorf ''%w: event %q is not valid'' ErrInvalidEvent [''cancel''])"
    by (simp add: testFSM_def testEvents_def)
  have 3: "FSM_Trigger testFSM doc1 \<lparr>Event.Name = ''cancel''\<rparr> ''user1'' 2
       \<lparr>MemoryStorage.transitions = [genesis doc1 ''draft'' ''user1'' 1]\<rparr>
     = (Some (fmt_Errorf ''%w: event %q is not valid'' ErrInvalidEvent [''cancel'']),
        \<lparr>MemoryStorage.transitions = [genesis doc1 ''draft'' ''user1'' 1]\<rparr>)"
    using 1 ev by (simp add: FSM_Trigger_mem st)
  have 4: "\<not> errors_Is (fmt_Errorf ''%w: event %q is not valid'' ErrInvalidEvent [''cancel''])
       ErrInvalidTransition"
    by simp
  show ?thesis
    by (intro conjI) (rule New_testFSM 1 2 3 4)+
qed

text \<open>
  Claim C4, amended. With the reference storage, when no declared transition leaves
  the entity's current state on the event, \<^verbatim>\<open>Trigger\<close> returns an error and the log
  as it was, so the current state and the history of the entity are unchanged. The
  error wraps \<^verbatim>\<open>ErrInvalidTransition\<close> when the event is declared, and
  \<^verbatim>\<open>ErrInvalidEvent\<close> (not \<^verbatim>\<open>ErrInvalidTransition\<close>) when it is not.
\<close>

theorem Trigger_no_transition:
  assumes "storage f = MemoryStorage_impl"
    and "FSM_GetState f e m = Inr cur"
    and "\<forall>t \<in> set (FSM.transitions f).
           \<not> (State.Name (From t) = State.Name cur \<and> Event.Name (Event t) = Event.Name ev)"
  shows "\<exists>err. FSM_Trigger f e ev createdBy now m = (Some err, m) \<and>
           (if Event.Name ev \<in> Event.Name ` set (events f)
            then errors_Is err ErrInvalidTransition
            else errors_Is err ErrInvalidEvent \<and> \<not> errors_Is err ErrInvalidTransition) \<and>
           MemoryStorage.transitions (snd (FSM_Trigger f e ev createdBy now m))
             = MemoryStorage.transitions m \<and>
           FSM_GetState f e (snd (FSM_Trigger f e ev createdBy now m)) = Inr cur \<and>
           FSM_GetTransitions f e (snd (FSM_Trigger f e ev createdBy now m))
             = FSM_GetTransitions f e m"
proof (cases "validateEvent ev (events f)")
  case (Some err)
  then have "Event.Name ev \<notin> Event.Name ` set (events f)"
    using validateEvent_image [of ev "events f"] by simp
  moreover have "FSM_Trigger f e ev createdBy now m = (Some err, m)"
    using assms(1,2) Some by (simp add: FSM_Trigger_mem)
  moreover note validateEvent_Some_Is [OF Some]
  ultimately show ?thesis
    using assms(2) by simp
next
  case None
  then have declared: "Event.Name ev \<in> Event.Name ` set (events f)"
    by (simp add: validateEvent_image)
  from assms(3) have "findNextState_loop (FSM.transitions f) cur ev = None"
    by (simp only: findNextState_loop_None)
  then obtain err where err: "FSM_findNextState f cur ev = Inl err"
    "errors_Is err ErrInvalidTransition"
    by (simp add: FSM_findNextState_def)
  have "FSM_Trigger f e ev createdBy now m = (Some err, m)"
    using assms(1,2) None err(1) by (simp add: FSM_Trigger_mem)
  then show ?thesis
    using assms(2) declared err(2) by simp
qed

theorem Trigger_no_transition_witness:
  "(\<exists>err. FSM_Trigger testFSM doc1 \<lparr>Event.Name = ''approve''\<rparr> ''user1'' 2
        \<lparr>MemoryStorage.transitions = [genesis doc1 ''draft'' ''user1'' 1]\<rparr>
      = (Some err, \<lparr>MemoryStorage.transitions = [genesis doc1 ''draft'' ''user1'' 1]\<rparr>)
      \<and> errors_Is err ErrInvalidTransition) \<and>
   (\<exists>err. FSM_Trigger testFSM doc1 \<lparr>Event.Name = ''cancel''\<rparr> ''user1'' 2
        \<lparr>MemoryStorage.transitions = [genesis doc1 ''draft'' ''user1'' 1]\<rparr>
      = (Some err, \<lparr>MemoryStorage.transitions = [genesis doc1 ''draft'' ''user1'' 1]\<rparr>)
      \<and> errors_Is err ErrInvalidEvent)"
proof -
  let ?m = "\<lparr>MemoryStorage.transitions = [genesis doc1 ''draft'' ''user1'' 1]\<rparr>"
  have st: "storage testFSM = MemoryStorage_impl"
    by (simp add: testFSM_def)
  have cur: "FSM_GetState testFSM doc1 ?m = Inr \<lparr>State.Name = ''draft''\<rparr>"
    by (simp add: FSM_GetState_mem st genesis_def)
  have no1: "\<forall>t \<in> set (FSM.transitions testFSM).
           \<not> (State.Name (From t) = State.Name \<lparr>State.Name = ''draft''\<rparr>
              \<and> Event.Name (Event t) = Event.Name \<lparr>Event.Name = ''approve''\<rparr>)"
    by (simp add: testFSM_def testTransitions_def declared_def)
  have no2: "\<forall>t \<in> set (FSM.transitions testFSM).
           \<not> (State.Name (From t) = State.Name \<lparr>State.Name = ''draft''\<rparr>
              \<and> Event.Name (Event t) = Event.Name \<lparr>Event.Name = ''cancel''\<rparr>)"
    by (simp add: testFSM_def testTransitions_def declared_def)
  have d1: "Event.Name \<lparr>Event.Name = ''approve''\<rparr> \<in> Event.Name ` set (events testFSM)"
    by (simp add: testFSM_def testEvents_def)
  have d2: "Event.Name \<lparr>Event.Name = ''cancel''\<rparr> \<notin> Event.Name ` set (events testFSM)"
    by (simp add: testFSM_def testEvents_def)
  have 1: "\<exists>err. FSM_Trigger testFSM doc1 \<lparr>Event.Name = ''approve''\<rparr> ''user1'' 2 ?m
      = (Some err, ?m) \<and> errors_Is err ErrInvalidTransition"
    using Trigger_no_transition [OF st cur no1, of "''user1''" 2] d1
    by (simp only: if_True) blast
  have 2: "\<exists>err. FSM_Trigger testFSM doc1 \<lparr>Event.Name = ''cancel''\<rparr> ''user1'' 2 ?m
      = (Some err, ?m) \<and> errors_Is err ErrInvalidEvent"
    using Trigger_no_transition [OF st cur no2, of "''user1''" 2] d2
    by (simp only: if_False) blast
  show ?thesis
    by (intro conjI) (rule 1 2)+
qed

section \<open>Logs built by histories of calls\<close>











section \<open>Histories returned by GetTransitions\<close>




section \<open>CanTrigger\<close>

lemma New_unreachableFSM:
  "New testStates testEvents testTransitions (Some unreachableStorage) = Inr unreachableFSM"
  by (simp add: New_def unreachableFSM_def testStates_def testEvents_def testTransitions_def
      declared_def)

text \<open>
  Claim C8. For an engine that \<^verbatim>\<open>New\<close> built over any storage, \<^verbatim>\<open>CanTrigger\<close>
  is a boolean: true exactly when the read of the current state succeeds and the
  lookup from that state on the event finds a target. It is false on every error of
  the read (entity not found or any other), when the event is not declared, and when
  no declared transition matches. When it is false \<^verbatim>\<open>Trigger\<close> returns an error
  and leaves the backend as it was; when it is true \<^verbatim>\<open>Trigger\<close> reaches
  \<^verbatim>\<open>SaveTransition\<close> with the record of that state and target, so on a storage
  whose save does not fail (the reference storage) it is true exactly when
  \<^verbatim>\<open>Trigger\<close> returns no error.
\<close>

theorem CanTrigger_probe:
  assumes "New sts evs trs (Some sto) = Inr f"
  shows "FSM_CanTrigger f e ev s =
           (\<exists>cur to. FSM_GetState f e s = Inr cur \<and> FSM_GetNextState f cur ev = Inr to) \<and>
         ((\<exists>err. GetCurrentState sto e s = Inl err) \<longrightarrow> \<not> FSM_CanTrigger f e ev s) \<and>
         (Event.Name ev \<notin> Event.Name ` set evs \<longrightarrow> \<not> FSM_CanTrigger f e ev s) \<and>
         (GetCurrentState sto e s = Inr cur \<and>
          (\<forall>t \<in> set trs. \<not> (State.Name (From t) = State.Name cur \<and> Event.Name (Event t) = Event.Name ev))
            \<longrightarrow> \<not> FSM_CanTrigger f e ev s) \<and>
         (\<not> FSM_CanTrigger f e ev s
            \<longrightarrow> (\<exists>err. FSM_Trigger f e ev createdBy now s = (Some err, s))) \<and>
         (FSM_CanTrigger f e ev s
            \<longrightarrow> (\<exists>cur to. GetCurrentState sto e s = Inr cur \<and> FSM_GetNextState f cur ev = Inr to \<and>
                  FSM_Trigger f e ev createdBy now s =
                    SaveTransition sto
                      \<lparr>Entity = e,
                       Transition = \<lparr>From = cur, To = to, Event = ev,
                                     CreatedAt = now, CreatedBy = createdBy\<rparr>\<rparr> s)) \<and>
         ((\<forall>et. fst (SaveTransition sto et s) = None)
            \<longrightarrow> FSM_CanTrigger f e ev s = (fst (FSM_Trigger f e ev createdBy now s) = None))"
proof -
  from New_Inr [OF assms] have f: "FSM.transitions f = trs" "events f = evs"
    and st: "storage f = sto"
    by simp_all
  have get: "FSM_GetState f e s = GetCurrentState sto e s"
    by (simp add: FSM_GetState_def st)
  have probe: "FSM_CanTrigger f e ev s =
           (\<exists>cur to. FSM_GetState f e s = Inr cur \<and> FSM_GetNextState f cur ev = Inr to)"
    by (auto simp: FSM_CanTrigger_def FSM_GetState_def FSM_GetNextState_def split: sum.splits)
  have readerr: "\<not> FSM_CanTrigger f e ev s" if "\<exists>err. GetCurrentState sto e s = Inl err"
    using that by (auto simp: probe get)
  have nomatch: "\<not> FSM_CanTrigger f e ev s"
    if "GetCurrentState sto e s = Inr cur"
      and "\<forall>t \<in> set trs. \<not> (State.Name (From t) = State.Name cur \<and> Event.Name (Event t) = Event.Name ev)"
    for cur
  proof -
    from that(2) have "\<not> (\<exists>to. FSM_findNextState f cur ev = Inr to)"
      by (simp add: FSM_findNextState_Inr_iff f)
    with that(1) show ?thesis
      by (auto simp: probe get FSM_GetNextState_def)
  qed
  have undeclared: "\<not> FSM_CanTrigger f e ev s" if "Event.Name ev \<notin> Event.Name ` set evs"
  proof (cases "GetCurrentState sto e s")
    case (Inl err)
    then show ?thesis using readerr by blast
  next
    case (Inr cur)
    from undeclared_event_no_transition [OF assms that] f
    have "\<forall>t \<in> set trs. \<not> (State.Name (From t) = State.Name cur \<and> Event.Name (Event t) = Event.Name ev)"
      by simp
    with Inr show ?thesis by (rule nomatch)
  qed
  have fails: "\<exists>err. FSM_Trigger f e ev createdBy now s = (Some err, s)"
    if no: "\<not> FSM_CanTrigger f e ev s"
  proof (cases "GetCurrentState sto e s")
    case (Inl err)
    then show ?thesis
      by (simp add: FSM_Trigger_def st)
  next
    case (Inr cur)
    with no have "\<not> (\<exists>to. FSM_findNextState f cur ev = Inr to)"
      by (auto simp: probe get FSM_GetNextState_def)
    then obtain err where "FSM_findNextState f cur ev = Inl err"
      by (cases "FSM_findNextState f cur ev") auto
    with Inr show ?thesis
      by (cases "validateEvent ev (events f)") (simp_all add: FSM_Trigger_def st)
  qed
  have saves: "\<exists>cur to. GetCurrentState sto e s = Inr cur \<and> FSM_GetNextState f cur ev = Inr to \<and>
                  FSM_Trigger f e ev createdBy now s =
                    SaveTransition sto
                      \<lparr>Entity = e,
                       Transition = \<lparr>From = cur, To = to, Event = ev,
                                     CreatedAt = now, CreatedBy = createdBy\<rparr>\<rparr> s"
    if yes: "FSM_CanTrigger f e ev s"
  proof -
    from yes obtain cur to where cur: "GetCurrentState sto e s = Inr cur"
      and to: "FSM_findNextState f cur ev = Inr to"
      by (auto simp: probe get FSM_GetNextState_def)
    have "Event.Name ev \<in> Event.Name ` set evs"
      using undeclared yes by blast
    then have "validateEvent ev (events f) = None"
      by (simp add: validateEvent_image f)
    with cur to have "FSM_Trigger f e ev createdBy now s =
                    SaveTransition sto
                      \<lparr>Entity = e,
                       Transition = \<lparr>From = cur, To = to, Event = ev,
                                     CreatedAt = now, CreatedBy = createdBy\<rparr>\<rparr> s"
      by (simp add: FSM_Trigger_def st)
    with cur to show ?thesis
      by (auto simp: FSM_GetNextState_def)
  qed
  have mem: "FSM_CanTrigger f e ev s = (fst (FSM_Trigger f e ev createdBy now s) = None)"
    if "\<forall>et. fst (SaveTransition sto et s) = None"
  proof (cases "FSM_CanTrigger f e ev s")
    case True
    from saves [OF True] that show ?thesis
      using True by auto
  next
    case False
    from fails [OF False] show ?thesis
      using False by auto
  qed
  show ?thesis
    using probe readerr undeclared nomatch [of cur] fails saves mem by blast
qed

theorem CanTrigger_probe_witness:
  "FSM_CanTrigger testFSM doc1 \<lparr>Event.Name = ''submit''\<rparr>
     \<lparr>MemoryStorage.transitions = [genesis doc1 ''draft'' ''user1'' 1]\<rparr> \<and>
   \<not> FSM_CanTrigger testFSM doc1 \<lparr>Event.Name = ''approve''\<rparr>
     \<lparr>MemoryStorage.transitions = [genesis doc1 ''draft'' ''user1'' 1]\<rparr> \<and>
   \<not> FSM_CanTrigger testFSM doc1 \<lparr>Event.Name = ''cancel''\<rparr>
     \<lparr>MemoryStorage.transitions = [genesis doc1 ''draft'' ''user1'' 1]\<rparr> \<and>
   \<not> FSM_CanTrigger testFSM doc2 \<lparr>Event.Name = ''submit''\<rparr>
     \<lparr>MemoryStorage.transitions = [genesis doc1 ''draft'' ''user1'' 1]\<rparr> \<and>
   \<not> FSM_CanTrigger unreachableFSM doc1 \<lparr>Event.Name = ''submit''\<rparr> () \<and>
   fst (FSM_Trigger testFSM doc1 \<lparr>Event.Name = ''submit''\<rparr> ''user1'' 2
     \<lparr>MemoryStorage.transitions = [genesis doc1 ''draft'' ''user1'' 1]\<rparr>) = None"
proof -
  let ?m = "\<lparr>MemoryStorage.transitions = [genesis doc1 ''draft'' ''user1'' 1]\<rparr>"
  have st: "storage testFSM = MemoryStorage_impl"
    by (simp add: testFSM_def)
  have cur: "FSM_GetState testFSM doc1 ?m = Inr \<lparr>State.Name = ''draft''\<rparr>"
    by (simp add: FSM_GetState_mem st genesis_def)
  have cur': "GetCurrentState MemoryStorage_impl doc1 ?m = Inr \<lparr>State.Name = ''draft''\<rparr>"
    using cur by (simp add: FSM_GetState_def st)
  have none: "\<exists>err. GetCurrentState MemoryStorage_impl doc2 ?m = Inl err"
    by (simp add: MemoryStorage_impl_def MemoryStorage_GetCurrentState_last genesis_def
        doc1_def doc2_def)
  have fault: "\<exists>err. GetCurrentState unreachableStorage doc1 () = Inl err"
    by (simp add: unreachableStorage_def)
  have nxt: "FSM_GetNextState testFSM \<lparr>State.Name = ''draft''\<rparr> \<lparr>Event.Name = ''submit''\<rparr>
      = Inr \<lparr>State.Name = ''submitted''\<rparr>"
    by (simp add: FSM_GetNextState_def FSM_findNextState_def testFSM_def testTransitions_def
        declared_def)
  have 1: "FSM_CanTrigger testFSM doc1 \<lparr>Event.Name = ''submit''\<rparr> ?m"
    using CanTrigger_probe [OF New_testFSM, of doc1 "\<lparr>Event.Name = ''submit''\<rparr>" ?m] cur nxt
    by blast
  have nomatch: "\<forall>t \<in> set testTransitions.
      \<not> (State.Name (From t) = State.Name \<lparr>State.Name = ''draft''\<rparr>
         \<and> Event.Name (Event t) = Event.Name \<lparr>Event.Name = ''approve''\<rparr>)"
    by (simp add: testTransitions_def declared_def)
  have 2: "\<not> FSM_CanTrigger testFSM doc1 \<lparr>Event.Name = ''approve''\<rparr> ?m"
    using CanTrigger_probe [OF New_testFSM, of doc1 "\<lparr>Event.Name = ''approve''\<rparr>" ?m
        "\<lparr>State.Name = ''draft''\<rparr>"] cur' nomatch
    by blast
  have undeclared: "Event.Name \<lparr>Event.Name = ''cancel''\<rparr> \<notin> Event.Name ` set testEvents"
    by (simp add: testEvents_def)
  have 3: "\<not> FSM_CanTrigger testFSM doc1 \<lparr>Event.Name = ''cancel''\<rparr> ?m"
    using CanTrigger_probe [OF New_testFSM, of doc1 "\<lparr>Event.Name = ''cancel''\<rparr>" ?m] undeclared
    by blast
  have 4: "\<not> FSM_CanTrigger testFSM doc2 \<lparr>Event.Name = ''submit''\<rparr> ?m"
    using CanTrigger_probe [OF New_testFSM, of doc2 "\<lparr>Event.Name = ''submit''\<rparr>" ?m] none
    by blast
  have 5: "\<not> FSM_CanTrigger unreachableFSM doc1 \<lparr>Event.Name = ''submit''\<rparr> ()"
    using CanTrigger_probe [OF New_unreachableFSM, of doc1 "\<lparr>Event.Name = ''submit''\<rparr>" "()"] fault
    by blast
  have saves: "\<forall>et. fst (SaveTransition MemoryStorage_impl et ?m) = None"
    by (simp add: SaveTransition_mem)
  have 6: "fst (FSM_Trigger testFSM doc1 \<lparr>Event.Name = ''submit''\<rparr> ''user1'' 2 ?m) = None"
    using CanTrigger_probe [OF New_testFSM, of doc1 "\<lparr>Event.Name = ''submit''\<rparr>" ?m _
        "''user1''" 2] saves 1
    by blast
  show ?thesis
    by (intro conjI) (rule 1 2 3 4 5 6)+
qed

section \<open>Current state of an entity\<close>




end
